theory Spec2Isabelle
  imports Complex_Main
begin

section \<open>JavaScript values\<close>

text \<open>
  The two modules \<^verbatim>\<open>src/www/browser/NSmedia.js\<close> (the direct-backed adapter, called
  the browser variant below) and \<^verbatim>\<open>src/unnamed/part_000\<close> (the bridge-backed adapter)
  are JavaScript. The values their dispatcher receives are modelled by \<open>jsval\<close>:
  \<open>undefined\<close>, \<open>null\<close>, booleans, numbers, strings and plain objects (a property
  list; error objects such as \<^verbatim>\<open>{ code: 1 }\<close> are of this kind). Arrays, symbols and objects
  with their own \<open>valueOf\<close> or \<open>toString\<close> are not modelled.

  A number is kept by its exact value: \<open>Finite r\<close> stands for the double that JavaScript
  rounds \<open>r\<close> to, and the two zeros are not told apart. Strings are lists of
  characters with the codes 0 to 255.
\<close>

datatype jsnum = Finite rat | NaN | PosInfinity | NegInfinity

datatype jsval =
    JUndefined
  | JNull
  | JBool bool
  | JNum jsnum
  | JStr string
  | JObj "(string \<times> jsval) list"

text \<open>Equality of two numbers, as both \<^verbatim>\<open>===\<close> and \<^verbatim>\<open>==\<close> decide it: \<open>NaN\<close> equals nothing.\<close>

fun numEq :: "jsnum \<Rightarrow> jsnum \<Rightarrow> bool" where
  "numEq NaN b = False"
| "numEq a NaN = False"
| "numEq a b = (a = b)"

text \<open>Truthiness, as \<^verbatim>\<open>if (v)\<close>, \<^verbatim>\<open>v && ...\<close> and \<^verbatim>\<open>v || ...\<close> read a value.\<close>

fun truthy :: "jsval \<Rightarrow> bool" where
  "truthy JUndefined = False"
| "truthy JNull = False"
| "truthy (JBool b) = b"
| "truthy (JNum n) = (n \<noteq> NaN \<and> n \<noteq> Finite 0)"
| "truthy (JStr s) = (s \<noteq> [])"
| "truthy (JObj ps) = True"

subsection \<open>String to number\<close>

text \<open>
  \<^verbatim>\<open>Number(value)\<close> on a string follows the language's grammar of numeric strings:
  surrounding white space is dropped, the empty string is 0, then come a decimal
  literal (sign, \<^verbatim>\<open>Infinity\<close>, digits, fraction, exponent) or an unsigned binary, octal
  or hexadecimal integer literal; any other text is \<open>NaN\<close>.
\<close>

definition isStrWhiteSpaceChar :: "char \<Rightarrow> bool" where
  "isStrWhiteSpaceChar c = ((of_char c :: nat) \<in> {9, 10, 11, 12, 13, 32, 160})"

definition trimString :: "string \<Rightarrow> string" where
  "trimString s =
     rev (dropWhile isStrWhiteSpaceChar (rev (dropWhile isStrWhiteSpaceChar s)))"

definition digitValue :: "nat \<Rightarrow> char \<Rightarrow> nat option" where
  "digitValue base c =
     (let n = (of_char c :: nat);
          d = (if 48 \<le> n \<and> n \<le> 57 then Some (n - 48)
               else if 97 \<le> n \<and> n \<le> 102 then Some (n - 87)
               else if 65 \<le> n \<and> n \<le> 70 then Some (n - 55)
               else None)
      in case d of None \<Rightarrow> None | Some v \<Rightarrow> if v < base then Some v else None)"

fun digitsValue :: "nat \<Rightarrow> nat \<Rightarrow> string \<Rightarrow> nat option" where
  "digitsValue base acc [] = Some acc"
| "digitsValue base acc (c # cs) =
     (case digitValue base c of
        None \<Rightarrow> None
      | Some d \<Rightarrow> digitsValue base (base * acc + d) cs)"

definition isDecimalDigit :: "char \<Rightarrow> bool" where
  "isDecimalDigit c = (digitValue 10 c \<noteq> None)"

definition decimalValue :: "string \<Rightarrow> nat" where
  "decimalValue s = (case digitsValue 10 0 s of None \<Rightarrow> 0 | Some n \<Rightarrow> n)"

definition DecimalDigits :: "string \<Rightarrow> nat option" where
  "DecimalDigits s = (if s = [] then None else digitsValue 10 0 s)"

definition SignedInteger :: "string \<Rightarrow> int option" where
  "SignedInteger s =
     (case s of
        [] \<Rightarrow> None
      | c # t \<Rightarrow>
          if c = CHR ''+'' then map_option int (DecimalDigits t)
          else if c = CHR ''-'' then map_option (\<lambda>n. - int n) (DecimalDigits t)
          else map_option int (DecimalDigits s))"

text \<open>The text after the mantissa: nothing, or an exponent indicator and a signed integer.\<close>

definition ExponentPart :: "string \<Rightarrow> int option" where
  "ExponentPart s =
     (case s of
        [] \<Rightarrow> Some 0
      | c # t \<Rightarrow> if c = CHR ''e'' \<or> c = CHR ''E'' then SignedInteger t else None)"

definition scale10 :: "rat \<Rightarrow> int \<Rightarrow> rat" where
  "scale10 m e = (if 0 \<le> e then m * 10 ^ nat e else m / 10 ^ nat (- e))"

definition StrUnsignedDecimalLiteral :: "string \<Rightarrow> jsnum option" where
  "StrUnsignedDecimalLiteral s =
     (if s = ''Infinity'' then Some PosInfinity
      else
        let ip = takeWhile isDecimalDigit s;
            r1 = dropWhile isDecimalDigit s;
            fp = (case r1 of
                    [] \<Rightarrow> []
                  | c # t \<Rightarrow> if c = CHR ''.'' then takeWhile isDecimalDigit t else []);
            r2 = (case r1 of
                    [] \<Rightarrow> []
                  | c # t \<Rightarrow> if c = CHR ''.'' then dropWhile isDecimalDigit t else r1)
        in if ip = [] \<and> fp = [] then None
           else
             (case ExponentPart r2 of
                None \<Rightarrow> None
              | Some e \<Rightarrow>
                  Some (Finite (scale10
                    (of_nat (decimalValue ip) + of_nat (decimalValue fp) / 10 ^ length fp) e))))"

fun negate :: "jsnum \<Rightarrow> jsnum" where
  "negate (Finite r) = Finite (- r)"
| "negate NaN = NaN"
| "negate PosInfinity = NegInfinity"
| "negate NegInfinity = PosInfinity"

definition StrDecimalLiteral :: "string \<Rightarrow> jsnum option" where
  "StrDecimalLiteral s =
     (case s of
        [] \<Rightarrow> None
      | c # t \<Rightarrow>
          if c = CHR ''+'' then StrUnsignedDecimalLiteral t
          else if c = CHR ''-'' then map_option negate (StrUnsignedDecimalLiteral t)
          else StrUnsignedDecimalLiteral s)"

definition NonDecimalIntegerLiteral :: "string \<Rightarrow> nat option" where
  "NonDecimalIntegerLiteral s =
     (case s of
        c0 # c1 # t \<Rightarrow>
          if c0 = CHR ''0'' \<and> t \<noteq> [] then
            (if c1 = CHR ''x'' \<or> c1 = CHR ''X'' then digitsValue 16 0 t
             else if c1 = CHR ''o'' \<or> c1 = CHR ''O'' then digitsValue 8 0 t
             else if c1 = CHR ''b'' \<or> c1 = CHR ''B'' then digitsValue 2 0 t
             else None)
          else None
      | _ \<Rightarrow> None)"

definition StringToNumber :: "string \<Rightarrow> jsnum" where
  "StringToNumber s =
     (let t = trimString s
      in if t = [] then Finite 0
         else
           (case NonDecimalIntegerLiteral t of
              Some n \<Rightarrow> Finite (of_nat n)
            | None \<Rightarrow> (case StrDecimalLiteral t of Some v \<Rightarrow> v | None \<Rightarrow> NaN)))"

subsection \<open>Coercions and comparisons\<close>

text \<open>
  \<open>ToNumber\<close> is what \<^verbatim>\<open>Number(value)\<close> returns and what \<^verbatim>\<open>==\<close> and \<^verbatim>\<open>/\<close> apply to an
  operand. A plain object is first turned into the primitive \<^verbatim>\<open>"[object Object]"\<close>.
\<close>

fun ToNumber :: "jsval \<Rightarrow> jsnum" where
  "ToNumber JUndefined = NaN"
| "ToNumber JNull = Finite 0"
| "ToNumber (JBool b) = Finite (if b then 1 else 0)"
| "ToNumber (JNum n) = n"
| "ToNumber (JStr s) = StringToNumber s"
| "ToNumber (JObj ps) = StringToNumber ''[object Object]''"

text \<open>\<^verbatim>\<open>v === n\<close> for a number \<open>n\<close>: no coercion, only a number can be equal to it.\<close>

fun strictEqualsNumber :: "jsval \<Rightarrow> jsnum \<Rightarrow> bool" where
  "strictEqualsNumber (JNum a) n = numEq a n"
| "strictEqualsNumber v n = False"

text \<open>\<^verbatim>\<open>v == n\<close> for a number \<open>n\<close>: \<open>undefined\<close> and \<open>null\<close> equal no number, every
  other operand is coerced to a number first.\<close>

fun looseEqualsNumber :: "jsval \<Rightarrow> jsnum \<Rightarrow> bool" where
  "looseEqualsNumber JUndefined n = False"
| "looseEqualsNumber JNull n = False"
| "looseEqualsNumber v n = numEq (ToNumber v) n"

text \<open>\<^verbatim>\<open>milliseconds / 1000\<close>.\<close>

definition divideBy1000 :: "jsval \<Rightarrow> jsval" where
  "divideBy1000 v = JNum (case ToNumber v of Finite r \<Rightarrow> Finite (r / 1000) | n \<Rightarrow> n)"

text \<open>The error raised by a property access or a call on \<open>undefined\<close>.\<close>

definition TypeError :: jsval where
  "TypeError = JObj [(''name'', JStr ''TypeError'')]"

text \<open>How an expression or a call completes: it returns a value, or it throws one.\<close>

datatype 'a outcome = Return 'a | Throw jsval

text \<open>\<^verbatim>\<open>v.k\<close>: a fault on \<open>undefined\<close> and \<open>null\<close>, the property's value on an object
  (\<open>undefined\<close> when it has none), \<open>undefined\<close> on the other primitives.\<close>

fun getProperty :: "jsval \<Rightarrow> string \<Rightarrow> jsval outcome" where
  "getProperty JUndefined k = Throw TypeError"
| "getProperty JNull k = Throw TypeError"
| "getProperty (JObj ps) k = Return (case map_of ps k of None \<Rightarrow> JUndefined | Some x \<Rightarrow> x)"
| "getProperty v k = Return JUndefined"

section \<open>Sessions, the registry and the environment\<close>

text \<open>
  A callback is a function of the application; the model names it by a handle and asks
  the environment what a call of it does. A callback argument or field checked with
  \<^verbatim>\<open>'F'\<close> is a function or absent, hence \<open>callback option\<close>.
\<close>

type_synonym callback = nat

text \<open>The node that \<open>createNode\<close> returns: the five handlers it attaches close over
  \<^verbatim>\<open>media.id\<close>, kept as \<open>handlers_for\<close>; \<open>node_src\<close> is set when \<^verbatim>\<open>media.src\<close> is truthy.\<close>

record audio =
  handlers_for :: string
  node_src :: "jsval option"

text \<open>The object the constructor \<open>NSmedia\<close> builds. \<open>priv_duration\<close> and
  \<open>priv_position\<close> are the fields \<^verbatim>\<open>_duration\<close> and \<^verbatim>\<open>_position\<close>; \<open>node\<close> is set only by
  the browser variant.\<close>

record media =
  media_id :: string
  src :: jsval
  successCallback :: "callback option"
  errorCallback :: "callback option"
  statusCallback :: "callback option"
  priv_duration :: jsval
  priv_position :: jsval
  node :: "audio option"

text \<open>
  \<^verbatim>\<open>var mediaObjects = {}\<close>: the registry, a dictionary from id to the session object.
  A session object lives in the registry under its id from its construction on (no code
  removes an entry), so the registry doubles as the store of session objects: a method's
  receiver \<^verbatim>\<open>this\<close> is given by the key it is stored under. Ids are the strings of
  \<^verbatim>\<open>utils.createUUID()\<close>; property names that a JavaScript object inherits are not ids.
\<close>

type_synonym mediaObjects = "string \<rightharpoonup> media"

text \<open>The accesses to the backing primitive (the browser's \<^verbatim>\<open>Audio\<close> element).\<close>

datatype prim_op =
    NewAudio
  | NodePlay
  | NodePause
  | SetCurrentTime jsval
  | GetCurrentTime
  | SetVolume jsval

text \<open>What a call leaves behind outside the registry, in order: a callback invoked with
  its arguments, \<^verbatim>\<open>console.error(prefix + v)\<close>, an access to the primitive, a command
  handed to \<^verbatim>\<open>exec(success, error, service, action, args)\<close>.\<close>

datatype event =
    Call callback "jsval list"
  | ConsoleError string jsval
  | Prim prim_op
  | Exec "callback option" "callback option" string string "jsval list"

text \<open>
  What the code does not decide:
  \<^item> \<open>console_error\<close>: whether \<^verbatim>\<open>console.error\<close> exists;
  \<^item> \<open>cb_throws\<close>: whether a callback, called with these arguments, throws (and what).
    A callback is taken to leave the registry alone;
  \<^item> \<open>prim_throws\<close>: whether an access to the primitive throws;
  \<^item> \<open>node_currentTime\<close>: what reading \<^verbatim>\<open>node.currentTime\<close> gives;
  \<^item> \<open>checkArgs\<close>: \<^verbatim>\<open>argscheck.checkArgs\<close> on the constructor's \<open>src\<close>, under the given
    signature string: the error it throws, if any;
  \<^item> the two constants of \<^verbatim>\<open>NSmediaError\<close> the browser variant reads; that module is not
    among the sources, so the numbers are parameters.
\<close>

record env =
  console_error :: bool
  cb_throws :: "callback \<Rightarrow> jsval list \<Rightarrow> jsval option"
  prim_throws :: "prim_op \<Rightarrow> jsval option"
  node_currentTime :: jsval
  checkArgs :: "string \<Rightarrow> jsval \<Rightarrow> jsval option"
  MEDIA_ERR_ABORTED :: jsnum
  MEDIA_ERR_SRC_NOT_SUPPORTED :: jsnum

text \<open>A call returns the registry, the events it produced, and how it completed.\<close>

type_synonym 'a result = "mediaObjects \<times> event list \<times> 'a outcome"

text \<open>\<^verbatim>\<open>a; b\<close>: the second statement runs when the first returns.\<close>

definition andThen :: "'a result \<Rightarrow> ('a \<Rightarrow> mediaObjects \<Rightarrow> 'b result) \<Rightarrow> 'b result" where
  "andThen r k =
     (case r of
        (st, tr, Return x) \<Rightarrow> (case k x st of (st', tr', c) \<Rightarrow> (st', tr @ tr', c))
      | (st, tr, Throw e) \<Rightarrow> (st, tr, Throw e))"

text \<open>\<^verbatim>\<open>try { a } catch (err) { h }\<close>.\<close>

definition tryCatch :: "'a result \<Rightarrow> (jsval \<Rightarrow> mediaObjects \<Rightarrow> 'a result) \<Rightarrow> 'a result" where
  "tryCatch r h =
     (case r of
        (st, tr, Return x) \<Rightarrow> (st, tr, Return x)
      | (st, tr, Throw e) \<Rightarrow> (case h e st of (st', tr', c) \<Rightarrow> (st', tr @ tr', c)))"

text \<open>\<^verbatim>\<open>f(args)\<close> for a function \<open>f\<close>.\<close>

definition call :: "env \<Rightarrow> mediaObjects \<Rightarrow> callback \<Rightarrow> jsval list \<Rightarrow> unit result" where
  "call e st f args =
     (st, [Call f args], case cb_throws e f args of None \<Rightarrow> Return () | Some err \<Rightarrow> Throw err)"

text \<open>\<^verbatim>\<open>cb && cb(args)\<close>.\<close>

definition callIfSet :: "env \<Rightarrow> mediaObjects \<Rightarrow> callback option \<Rightarrow> jsval list \<Rightarrow> unit result" where
  "callIfSet e st cb args =
     (case cb of None \<Rightarrow> (st, [], Return ()) | Some f \<Rightarrow> call e st f args)"

text \<open>\<^verbatim>\<open>cb(args)\<close> for an argument that may have been left out: calling \<open>undefined\<close> is
  a fault.\<close>

definition callFunction :: "env \<Rightarrow> mediaObjects \<Rightarrow> callback option \<Rightarrow> jsval list \<Rightarrow> unit result" where
  "callFunction e st cb args =
     (case cb of None \<Rightarrow> (st, [], Throw TypeError) | Some f \<Rightarrow> call e st f args)"

text \<open>\<^verbatim>\<open>console.error && console.error(prefix + v)\<close>.\<close>

definition consoleError :: "env \<Rightarrow> mediaObjects \<Rightarrow> string \<Rightarrow> jsval \<Rightarrow> unit result" where
  "consoleError e st prefix v =
     (st, if console_error e then [ConsoleError prefix v] else [], Return ())"

section \<open>The status dispatcher\<close>

text \<open>NSmedia messages and NSmedia states, the same numbers in both modules.\<close>

definition MEDIA_STATE :: jsnum where "MEDIA_STATE = Finite 1"
definition MEDIA_DURATION :: jsnum where "MEDIA_DURATION = Finite 2"
definition MEDIA_POSITION :: jsnum where "MEDIA_POSITION = Finite 3"
definition MEDIA_ERROR :: jsnum where "MEDIA_ERROR = Finite 9"

definition MEDIA_NONE :: jsnum where "MEDIA_NONE = Finite 0"
definition MEDIA_STARTING :: jsnum where "MEDIA_STARTING = Finite 1"
definition MEDIA_RUNNING :: jsnum where "MEDIA_RUNNING = Finite 2"
definition MEDIA_PAUSED :: jsnum where "MEDIA_PAUSED = Finite 3"
definition MEDIA_STOPPED :: jsnum where "MEDIA_STOPPED = Finite 4"

text \<open>
  \<open>NSmedia.onStatus\<close> of \<^verbatim>\<open>src/www/browser/NSmedia.js\<close>. The \<^verbatim>\<open>switch\<close> compares
  \<open>msgType\<close> with each case by \<^verbatim>\<open>===\<close>, in the order of the source; the stopped state is
  recognised by \<^verbatim>\<open>value === NSmedia.MEDIA_STOPPED\<close>.
\<close>

definition browser_onStatus ::
  "env \<Rightarrow> mediaObjects \<Rightarrow> string \<Rightarrow> jsval \<Rightarrow> jsval \<Rightarrow> unit result" where
  "browser_onStatus e st id' msgType v =
     (case st id' of
        Some m \<Rightarrow>
          if strictEqualsNumber msgType MEDIA_STATE then
            andThen (callIfSet e st (statusCallback m) [v])
              (\<lambda>_ st1.
                 if strictEqualsNumber v MEDIA_STOPPED
                 then callIfSet e st1 (successCallback m) []
                 else (st1, [], Return ()))
          else if strictEqualsNumber msgType MEDIA_DURATION then
            (st(id' \<mapsto> m\<lparr>priv_duration := v\<rparr>), [], Return ())
          else if strictEqualsNumber msgType MEDIA_ERROR then
            callIfSet e st (errorCallback m) [v]
          else if strictEqualsNumber msgType MEDIA_POSITION then
            (st(id' \<mapsto> m\<lparr>priv_position := JNum (ToNumber v)\<rparr>), [], Return ())
          else
            consoleError e st ''Unhandled NSmedia.onStatus :: '' msgType
      | None \<Rightarrow>
          consoleError e st ''Received NSmedia.onStatus callback for unknown media :: ''
            (JStr id'))"

text \<open>
  \<open>NSmedia.onStatus\<close> of \<^verbatim>\<open>src/unnamed/part_000\<close>: the same text, but the stopped state
  is recognised by \<^verbatim>\<open>value == NSmedia.MEDIA_STOPPED\<close>.
\<close>

definition bridge_onStatus ::
  "env \<Rightarrow> mediaObjects \<Rightarrow> string \<Rightarrow> jsval \<Rightarrow> jsval \<Rightarrow> unit result" where
  "bridge_onStatus e st id' msgType v =
     (case st id' of
        Some m \<Rightarrow>
          if strictEqualsNumber msgType MEDIA_STATE then
            andThen (callIfSet e st (statusCallback m) [v])
              (\<lambda>_ st1.
                 if looseEqualsNumber v MEDIA_STOPPED
                 then callIfSet e st1 (successCallback m) []
                 else (st1, [], Return ()))
          else if strictEqualsNumber msgType MEDIA_DURATION then
            (st(id' \<mapsto> m\<lparr>priv_duration := v\<rparr>), [], Return ())
          else if strictEqualsNumber msgType MEDIA_ERROR then
            callIfSet e st (errorCallback m) [v]
          else if strictEqualsNumber msgType MEDIA_POSITION then
            (st(id' \<mapsto> m\<lparr>priv_position := JNum (ToNumber v)\<rparr>), [], Return ())
          else
            consoleError e st ''Unhandled NSmedia.onStatus :: '' msgType
      | None \<Rightarrow>
          consoleError e st ''Received NSmedia.onStatus callback for unknown media :: ''
            (JStr id'))"

text \<open>\<open>getDuration\<close>, the same in both modules: \<^verbatim>\<open>return this._duration\<close>. A receiver
  that is no session object is \<open>undefined\<close>, and a method call on it is a fault.\<close>

definition getDuration :: "mediaObjects \<Rightarrow> string \<Rightarrow> jsval result" where
  "getDuration st this =
     (case st this of
        None \<Rightarrow> (st, [], Throw TypeError)
      | Some m \<Rightarrow> (st, [], Return (priv_duration m)))"

section \<open>The browser variant\<close>

text \<open>An access to the primitive: it is recorded, and it throws when the environment
  says so.\<close>

definition primitive :: "env \<Rightarrow> mediaObjects \<Rightarrow> prim_op \<Rightarrow> unit result" where
  "primitive e st op =
     (st, [Prim op], case prim_throws e op of None \<Rightarrow> Return () | Some err \<Rightarrow> Throw err)"

text \<open>\<^verbatim>\<open>this.node.<access>\<close>: a fault when \<^verbatim>\<open>this.node\<close> is \<open>undefined\<close>.\<close>

definition onNode :: "env \<Rightarrow> mediaObjects \<Rightarrow> string \<Rightarrow> prim_op \<Rightarrow> unit result" where
  "onNode e st this op =
     (case st this of
        None \<Rightarrow> (st, [], Throw TypeError)
      | Some m \<Rightarrow>
          (case node m of
             None \<Rightarrow> (st, [], Throw TypeError)
           | Some n \<Rightarrow> primitive e st op))"

text \<open>\<open>createNode(media)\<close>: \<^verbatim>\<open>new Audio()\<close>, the five handlers, and
  \<^verbatim>\<open>if (media.src) node.src = media.src\<close>.\<close>

definition createNode :: "env \<Rightarrow> mediaObjects \<Rightarrow> string \<Rightarrow> audio result" where
  "createNode e st this =
     andThen (primitive e st NewAudio)
       (\<lambda>_ st1.
          case st1 this of
            None \<Rightarrow> (st1, [], Throw TypeError)
          | Some m \<Rightarrow>
              (st1, [],
               Return \<lparr>handlers_for = media_id m,
                       node_src = (if truthy (src m) then Some (src m) else None)\<rparr>))"

text \<open>The handlers \<open>createNode\<close> attaches to the node \<open>n\<close>.\<close>

definition onloadstart :: "env \<Rightarrow> mediaObjects \<Rightarrow> audio \<Rightarrow> unit result" where
  "onloadstart e st n =
     browser_onStatus e st (handlers_for n) (JNum MEDIA_STATE) (JNum MEDIA_STARTING)"

definition onplaying :: "env \<Rightarrow> mediaObjects \<Rightarrow> audio \<Rightarrow> unit result" where
  "onplaying e st n =
     browser_onStatus e st (handlers_for n) (JNum MEDIA_STATE) (JNum MEDIA_RUNNING)"

text \<open>\<^verbatim>\<open>e.target.duration || -1\<close>; \<open>d\<close> is \<^verbatim>\<open>e.target.duration\<close>.\<close>

definition ondurationchange :: "env \<Rightarrow> mediaObjects \<Rightarrow> audio \<Rightarrow> jsval \<Rightarrow> unit result" where
  "ondurationchange e st n d =
     browser_onStatus e st (handlers_for n) (JNum MEDIA_DURATION)
       (if truthy d then d else JNum (Finite (- 1)))"

text \<open>\<open>err\<close> is \<^verbatim>\<open>e.target.error\<close>.\<close>

definition onerror :: "env \<Rightarrow> mediaObjects \<Rightarrow> audio \<Rightarrow> jsval \<Rightarrow> unit result" where
  "onerror e st n err =
     (case getProperty err ''code'' of
        Throw x \<Rightarrow> (st, [], Throw x)
      | Return c \<Rightarrow>
          browser_onStatus e st (handlers_for n) (JNum MEDIA_ERROR)
            (if strictEqualsNumber c (MEDIA_ERR_SRC_NOT_SUPPORTED e)
             then JObj [(''code'', JNum (MEDIA_ERR_ABORTED e))]
             else err))"

definition onended :: "env \<Rightarrow> mediaObjects \<Rightarrow> audio \<Rightarrow> unit result" where
  "onended e st n =
     browser_onStatus e st (handlers_for n) (JNum MEDIA_STATE) (JNum MEDIA_STOPPED)"

text \<open>\<^verbatim>\<open>this.node = n\<close>.\<close>

definition setNode :: "mediaObjects \<Rightarrow> string \<Rightarrow> audio \<Rightarrow> unit result" where
  "setNode st this n =
     (case st this of
        None \<Rightarrow> (st, [], Throw TypeError)
      | Some m \<Rightarrow> (st(this \<mapsto> m\<lparr>node := Some n\<rparr>), [], Return ()))"

text \<open>
  The constructor of the browser variant. \<open>uuid\<close> is what \<^verbatim>\<open>utils.createUUID()\<close>
  returned. The new object is registered, told \<open>MEDIA_STARTING\<close>, and given its node.
\<close>

definition browser_NSmedia ::
  "env \<Rightarrow> mediaObjects \<Rightarrow> string \<Rightarrow> jsval \<Rightarrow> callback option \<Rightarrow> callback option \<Rightarrow>
   callback option \<Rightarrow> unit result" where
  "browser_NSmedia e st uuid src' successCallback' errorCallback' statusCallback' =
     (case checkArgs e ''SFFF'' src' of
        Some err \<Rightarrow> (st, [], Throw err)
      | None \<Rightarrow>
          andThen
            (browser_onStatus e
               (st(uuid \<mapsto>
                  \<lparr>media_id = uuid, src = src', successCallback = successCallback',
                   errorCallback = errorCallback', statusCallback = statusCallback',
                   priv_duration = JNum (Finite (- 1)), priv_position = JNum (Finite (- 1)),
                   node = None\<rparr>))
               uuid (JNum MEDIA_STATE) (JNum MEDIA_STARTING))
            (\<lambda>_ st1.
               tryCatch
                 (andThen (createNode e st1 uuid) (\<lambda>n st2. setNode st2 uuid n))
                 (\<lambda>err st2.
                    browser_onStatus e st2 uuid (JNum MEDIA_ERROR)
                      (JObj [(''code'', JNum (MEDIA_ERR_ABORTED e))]))))"

text \<open>\<open>play\<close>: only the creation of a missing node is inside \<^verbatim>\<open>try\<close>;
  \<^verbatim>\<open>this.node.play()\<close> is not.\<close>

definition play :: "env \<Rightarrow> mediaObjects \<Rightarrow> string \<Rightarrow> unit result" where
  "play e st this =
     (case st this of
        None \<Rightarrow> (st, [], Throw TypeError)
      | Some m \<Rightarrow>
          andThen
            (if node m = None then
               tryCatch
                 (andThen (createNode e st this) (\<lambda>n st1. setNode st1 this n))
                 (\<lambda>err st1.
                    browser_onStatus e st1 (media_id m) (JNum MEDIA_ERROR)
                      (JObj [(''code'', JNum (MEDIA_ERR_ABORTED e))]))
             else (st, [], Return ()))
            (\<lambda>_ st2. onNode e st2 this NodePlay))"

definition pause :: "env \<Rightarrow> mediaObjects \<Rightarrow> string \<Rightarrow> unit result" where
  "pause e st this =
     (case st this of
        None \<Rightarrow> (st, [], Throw TypeError)
      | Some m \<Rightarrow>
          tryCatch
            (andThen (onNode e st this NodePause)
               (\<lambda>_ st1. browser_onStatus e st1 (media_id m) (JNum MEDIA_STATE) (JNum MEDIA_PAUSED)))
            (\<lambda>err st1. browser_onStatus e st1 (media_id m) (JNum MEDIA_ERROR) err))"

definition seekTo :: "env \<Rightarrow> mediaObjects \<Rightarrow> string \<Rightarrow> jsval \<Rightarrow> unit result" where
  "seekTo e st this milliseconds =
     (case st this of
        None \<Rightarrow> (st, [], Throw TypeError)
      | Some m \<Rightarrow>
          tryCatch
            (onNode e st this (SetCurrentTime (divideBy1000 milliseconds)))
            (\<lambda>err st1. browser_onStatus e st1 (media_id m) (JNum MEDIA_ERROR) err))"

definition stop :: "env \<Rightarrow> mediaObjects \<Rightarrow> string \<Rightarrow> unit result" where
  "stop e st this =
     (case st this of
        None \<Rightarrow> (st, [], Throw TypeError)
      | Some m \<Rightarrow>
          tryCatch
            (andThen (pause e st this)
               (\<lambda>_ st1.
                  andThen (seekTo e st1 this (JNum (Finite 0)))
                    (\<lambda>_ st2.
                       browser_onStatus e st2 (media_id m) (JNum MEDIA_STATE)
                         (JNum MEDIA_STOPPED))))
            (\<lambda>err st1. browser_onStatus e st1 (media_id m) (JNum MEDIA_ERROR) err))"

text \<open>\<open>getCurrentPosition(success, fail)\<close>: a fault goes to \<open>fail\<close>.\<close>

definition getCurrentPosition ::
  "env \<Rightarrow> mediaObjects \<Rightarrow> string \<Rightarrow> callback option \<Rightarrow> callback option \<Rightarrow> unit result" where
  "getCurrentPosition e st this success fail =
     (case st this of
        None \<Rightarrow> (st, [], Throw TypeError)
      | Some m \<Rightarrow>
          tryCatch
            (andThen (onNode e st this GetCurrentTime)
               (\<lambda>_ st1.
                  andThen
                    (browser_onStatus e st1 (media_id m) (JNum MEDIA_POSITION)
                       (node_currentTime e))
                    (\<lambda>_ st2. callFunction e st2 success [node_currentTime e])))
            (\<lambda>err st1. callFunction e st1 fail [err]))"

definition startRecord :: "env \<Rightarrow> mediaObjects \<Rightarrow> string \<Rightarrow> unit result" where
  "startRecord e st this =
     (case st this of
        None \<Rightarrow> (st, [], Throw TypeError)
      | Some m \<Rightarrow>
          browser_onStatus e st (media_id m) (JNum MEDIA_ERROR) (JStr ''Not supported''))"

definition stopRecord :: "env \<Rightarrow> mediaObjects \<Rightarrow> string \<Rightarrow> unit result" where
  "stopRecord e st this =
     (case st this of
        None \<Rightarrow> (st, [], Throw TypeError)
      | Some m \<Rightarrow>
          browser_onStatus e st (media_id m) (JNum MEDIA_ERROR) (JStr ''Not supported''))"

text \<open>\<open>release\<close>: \<^verbatim>\<open>delete this.node\<close> removes the field of the session object; it does
  not touch the primitive and does not throw, so the handler of the \<^verbatim>\<open>try\<close> never runs.\<close>

definition release :: "env \<Rightarrow> mediaObjects \<Rightarrow> string \<Rightarrow> unit result" where
  "release e st this =
     (case st this of
        None \<Rightarrow> (st, [], Throw TypeError)
      | Some m \<Rightarrow>
          tryCatch
            (st(this \<mapsto> m\<lparr>node := None\<rparr>), [], Return ())
            (\<lambda>err st1. browser_onStatus e st1 (media_id m) (JNum MEDIA_ERROR) err))"

text \<open>\<open>setVolume\<close>: \<^verbatim>\<open>this.node.volume = volume\<close>, outside any \<^verbatim>\<open>try\<close>.\<close>

definition setVolume :: "env \<Rightarrow> mediaObjects \<Rightarrow> string \<Rightarrow> jsval \<Rightarrow> unit result" where
  "setVolume e st this volume = onNode e st this (SetVolume volume)"

section \<open>The bridge variant\<close>

text \<open>The constructor: the object is registered and a \<^verbatim>\<open>create\<close> command is handed to
  \<^verbatim>\<open>exec\<close>.\<close>

definition bridge_NSmedia ::
  "env \<Rightarrow> mediaObjects \<Rightarrow> string \<Rightarrow> jsval \<Rightarrow> callback option \<Rightarrow> callback option \<Rightarrow>
   callback option \<Rightarrow> unit result" where
  "bridge_NSmedia e st uuid src' successCallback' errorCallback' statusCallback' =
     (case checkArgs e ''sFFF'' src' of
        Some err \<Rightarrow> (st, [], Throw err)
      | None \<Rightarrow>
          (st(uuid \<mapsto>
             \<lparr>media_id = uuid, src = src', successCallback = successCallback',
              errorCallback = errorCallback', statusCallback = statusCallback',
              priv_duration = JNum (Finite (- 1)), priv_position = JNum (Finite (- 1)),
              node = None\<rparr>),
           [Exec None errorCallback' ''NSmedia'' ''create'' [JStr uuid, src']],
           Return ()))"

section \<open>Runs and sample inputs\<close>

text \<open>A status message \<open>(id, msgType, value)\<close>, and the registry after a series of them,
  each dispatched on its own from the event loop.\<close>

type_synonym message = "string \<times> jsval \<times> jsval"

fun browser_dispatchAll :: "env \<Rightarrow> mediaObjects \<Rightarrow> message list \<Rightarrow> mediaObjects" where
  "browser_dispatchAll e st [] = st"
| "browser_dispatchAll e st ((i, t, v) # ms) =
     browser_dispatchAll e (fst (browser_onStatus e st i t v)) ms"

fun bridge_dispatchAll :: "env \<Rightarrow> mediaObjects \<Rightarrow> message list \<Rightarrow> mediaObjects" where
  "bridge_dispatchAll e st [] = st"
| "bridge_dispatchAll e st ((i, t, v) # ms) =
     bridge_dispatchAll e (fst (bridge_onStatus e st i t v)) ms"

text \<open>An environment in which nothing throws, with the error codes of the HTML media
  element (aborted 1, source not supported 4), and one in which every access to the
  primitive and every callback throws.\<close>

definition quiet_env :: env where
  "quiet_env =
     \<lparr>console_error = True, cb_throws = (\<lambda>f args. None), prim_throws = (\<lambda>op. None),
      node_currentTime = JNum (Finite 0), checkArgs = (\<lambda>spec s. None),
      MEDIA_ERR_ABORTED = Finite 1, MEDIA_ERR_SRC_NOT_SUPPORTED = Finite 4\<rparr>"

definition boom :: jsval where
  "boom = JStr ''boom''"

definition faulty_env :: env where
  "faulty_env =
     \<lparr>console_error = True, cb_throws = (\<lambda>f args. None), prim_throws = (\<lambda>op. Some boom),
      node_currentTime = JNum (Finite 0), checkArgs = (\<lambda>spec s. None),
      MEDIA_ERR_ABORTED = Finite 1, MEDIA_ERR_SRC_NOT_SUPPORTED = Finite 4\<rparr>"

text \<open>A session with all three callbacks (success 1, error 2, status 3) and a node, and
  the registry that holds it under its id.\<close>

definition sample_media :: media where
  "sample_media =
     \<lparr>media_id = ''a'', src = JStr ''song.mp3'', successCallback = Some 1,
      errorCallback = Some 2, statusCallback = Some 3,
      priv_duration = JNum (Finite (- 1)), priv_position = JNum (Finite (- 1)),
      node = Some \<lparr>handlers_for = ''a'', node_src = Some (JStr ''song.mp3'')\<rparr>\<rparr>"

definition sample_registry :: mediaObjects where
  "sample_registry = [''a'' \<mapsto> sample_media]"

section \<open>Reading a result\<close>

definition events_of :: "'a result \<Rightarrow> event list" where
  "events_of r = fst (snd r)"

definition outcome_of :: "'a result \<Rightarrow> 'a outcome" where
  "outcome_of r = snd (snd r)"

text \<open>The event of calling a callback that may be absent, whether such a call returns,
  and how it completes.\<close>

definition invocations :: "callback option \<Rightarrow> jsval list \<Rightarrow> event list" where
  "invocations cb args = (case cb of None \<Rightarrow> [] | Some f \<Rightarrow> [Call f args])"

definition returns :: "env \<Rightarrow> callback option \<Rightarrow> jsval list \<Rightarrow> bool" where
  "returns e cb args = (case cb of None \<Rightarrow> True | Some f \<Rightarrow> cb_throws e f args = None)"

definition completion :: "env \<Rightarrow> callback option \<Rightarrow> jsval list \<Rightarrow> unit outcome" where
  "completion e cb args =
     (case cb of
        None \<Rightarrow> Return ()
      | Some f \<Rightarrow> (case cb_throws e f args of None \<Rightarrow> Return () | Some err \<Rightarrow> Throw err))"

text \<open>No message of the series is a duration message for the session \<open>u\<close>.\<close>

definition no_duration_for :: "string \<Rightarrow> message list \<Rightarrow> bool" where
  "no_duration_for u ms =
     list_all (\<lambda>(i, t, v). i \<noteq> u \<or> \<not> strictEqualsNumber t MEDIA_DURATION) ms"

section \<open>Basic facts\<close>

lemmas StringToNumber_defs =
  StringToNumber_def trimString_def isStrWhiteSpaceChar_def NonDecimalIntegerLiteral_def
  StrDecimalLiteral_def StrUnsignedDecimalLiteral_def isDecimalDigit_def digitValue_def
  decimalValue_def ExponentPart_def SignedInteger_def DecimalDigits_def scale10_def

lemmas MEDIA_defs =
  MEDIA_STATE_def MEDIA_DURATION_def MEDIA_POSITION_def MEDIA_ERROR_def
  MEDIA_NONE_def MEDIA_STARTING_def MEDIA_RUNNING_def MEDIA_PAUSED_def MEDIA_STOPPED_def

lemmas sample_defs = sample_registry_def sample_media_def quiet_env_def faulty_env_def


lemma StringToNumber_12_5: "StringToNumber ''12.5'' = Finite 12.5"
  by (simp add: StringToNumber_defs)

lemma StringToNumber_42: "StringToNumber ''42'' = Finite 42"
  by (simp add: StringToNumber_defs)


lemma numEq_Finite [simp]: "numEq a (Finite r) = (a = Finite r)"
  by (cases a) auto


lemma outcome_of_simp [simp]: "outcome_of (st, tr, c) = c"
  by (simp add: outcome_of_def)

lemma events_of_simp [simp]: "events_of (st, tr, c) = tr"
  by (simp add: events_of_def)

lemma andThen_simps [simp]:
  "andThen (st, tr, Return x) k = (case k x st of (st', tr', c) \<Rightarrow> (st', tr @ tr', c))"
  "andThen (st, tr, Throw err) k = (st, tr, Throw err)"
  by (simp_all add: andThen_def)

lemma tryCatch_simps [simp]:
  "tryCatch (st, tr, Return x) h = (st, tr, Return x)"
  "tryCatch (st, tr, Throw err) h = (case h err st of (st', tr', c) \<Rightarrow> (st', tr @ tr', c))"
  by (simp_all add: tryCatch_def)

lemma callIfSet_eq:
  "callIfSet e st cb args = (st, invocations cb args, completion e cb args)"
  by (simp add: callIfSet_def call_def invocations_def completion_def split: option.split)

lemma callIfSet_fst [simp]: "fst (callIfSet e st cb args) = st"
  by (simp add: callIfSet_eq)

lemma completion_returns: "returns e cb args \<Longrightarrow> completion e cb args = Return ()"
  by (cases cb) (simp_all add: returns_def completion_def)

text \<open>The two branches of the browser dispatcher that the adapter's methods use.\<close>

lemma onStatus_ERROR:
  "st i = Some m \<Longrightarrow>
   browser_onStatus e st i (JNum MEDIA_ERROR) v =
     (st, invocations (errorCallback m) [v], completion e (errorCallback m) [v])"
  by (simp add: browser_onStatus_def callIfSet_eq MEDIA_defs)

lemma onStatus_STATE:
  "st i = Some m \<Longrightarrow>
   browser_onStatus e st i (JNum MEDIA_STATE) v =
     andThen (callIfSet e st (statusCallback m) [v])
       (\<lambda>_ st1. if strictEqualsNumber v MEDIA_STOPPED
                 then callIfSet e st1 (successCallback m) [] else (st1, [], Return ()))"
  by (simp add: browser_onStatus_def MEDIA_defs)

lemma onStatus_STATE_fst:
  "st i = Some m \<Longrightarrow> fst (browser_onStatus e st i (JNum MEDIA_STATE) v) = st"
  by (cases "completion e (statusCallback m) [v]")
     (simp_all add: onStatus_STATE callIfSet_eq)

section \<open>The dispatcher of the two variants\<close>




text \<open>
  Claim C2: for every registered id, dispatching \<open>(id, MEDIA_STATE, MEDIA_STOPPED)\<close>
  invokes the status callback with \<open>MEDIA_STOPPED\<close> and then the success callback with no
  arguments, in that order, each only if the session has it. The second call follows
  the return of the first, so the status callback is taken to return; the lemma after
  the theorem says what happens when it throws instead.
\<close>

theorem dispatch_stopped_status_then_success:
  assumes "st i = Some m"
    and "returns e (statusCallback m) [JNum MEDIA_STOPPED]"
  shows "browser_onStatus e st i (JNum MEDIA_STATE) (JNum MEDIA_STOPPED) =
           (st,
            invocations (statusCallback m) [JNum MEDIA_STOPPED] @
              invocations (successCallback m) [],
            completion e (successCallback m) []) \<and>
         bridge_onStatus e st i (JNum MEDIA_STATE) (JNum MEDIA_STOPPED) =
           (st,
            invocations (statusCallback m) [JNum MEDIA_STOPPED] @
              invocations (successCallback m) [],
            completion e (successCallback m) [])"
  using assms
  by (simp add: browser_onStatus_def bridge_onStatus_def callIfSet_eq completion_returns
        MEDIA_defs)

theorem dispatch_stopped_status_then_success_witness:
  "sample_registry ''a'' = Some sample_media \<and>
   returns quiet_env (statusCallback sample_media) [JNum MEDIA_STOPPED] \<and>
   browser_onStatus quiet_env sample_registry ''a'' (JNum MEDIA_STATE) (JNum MEDIA_STOPPED) =
     (sample_registry, [Call 3 [JNum MEDIA_STOPPED], Call 1 []], Return ()) \<and>
   bridge_onStatus quiet_env sample_registry ''a'' (JNum MEDIA_STATE) (JNum MEDIA_STOPPED) =
     (sample_registry, [Call 3 [JNum MEDIA_STOPPED], Call 1 []], Return ())"
proof -
  have h1: "sample_registry ''a'' = Some sample_media"
    by (simp add: sample_registry_def)
  have h2: "returns quiet_env (statusCallback sample_media) [JNum MEDIA_STOPPED]"
    by (simp add: returns_def sample_media_def quiet_env_def)
  have c: "completion quiet_env (successCallback sample_media) [] = Return ()"
    by (simp add: completion_def sample_media_def quiet_env_def)
  have i: "invocations (statusCallback sample_media) [JNum MEDIA_STOPPED] =
             [Call 3 [JNum MEDIA_STOPPED]]"
    "invocations (successCallback sample_media) [] = [Call 1 []]"
    by (simp_all add: invocations_def sample_media_def)
  show ?thesis
    using h1 h2 c i
      dispatch_stopped_status_then_success [where st = sample_registry and i = "''a''"
        and m = sample_media and e = quiet_env, OF h1 h2]
    by simp
qed

lemma status_callback_throws_on_stopped:
  assumes "st i = Some m" and "statusCallback m = Some f"
    and "cb_throws e f [JNum MEDIA_STOPPED] = Some x"
  shows "browser_onStatus e st i (JNum MEDIA_STATE) (JNum MEDIA_STOPPED) =
           (st, [Call f [JNum MEDIA_STOPPED]], Throw x) \<and>
         bridge_onStatus e st i (JNum MEDIA_STATE) (JNum MEDIA_STOPPED) =
           (st, [Call f [JNum MEDIA_STOPPED]], Throw x)"
  using assms
  by (simp add: browser_onStatus_def bridge_onStatus_def callIfSet_def call_def MEDIA_defs)



text \<open>
  Claim C5: for every registered session, dispatching \<open>(id, MEDIA_POSITION, "12.5")\<close>
  stores the number 12.5 as the session's cached position (the string is coerced to a
  number) and invokes no callback.
\<close>

theorem dispatch_position_string:
  assumes "st i = Some m"
  shows "browser_onStatus e st i (JNum MEDIA_POSITION) (JStr ''12.5'') =
           (st(i \<mapsto> m\<lparr>priv_position := JNum (Finite 12.5)\<rparr>), [], Return ()) \<and>
         bridge_onStatus e st i (JNum MEDIA_POSITION) (JStr ''12.5'') =
           (st(i \<mapsto> m\<lparr>priv_position := JNum (Finite 12.5)\<rparr>), [], Return ())"
  using assms
  by (simp add: browser_onStatus_def bridge_onStatus_def MEDIA_defs StringToNumber_12_5)

theorem dispatch_position_string_witness:
  "sample_registry ''a'' = Some sample_media \<and>
   browser_onStatus quiet_env sample_registry ''a'' (JNum MEDIA_POSITION) (JStr ''12.5'') =
     (sample_registry(''a'' \<mapsto> sample_media\<lparr>priv_position := JNum (Finite 12.5)\<rparr>), [],
      Return ()) \<and>
   bridge_onStatus quiet_env sample_registry ''a'' (JNum MEDIA_POSITION) (JStr ''12.5'') =
     (sample_registry(''a'' \<mapsto> sample_media\<lparr>priv_position := JNum (Finite 12.5)\<rparr>), [],
      Return ())"
proof -
  have h: "sample_registry ''a'' = Some sample_media"
    by (simp add: sample_registry_def)
  show ?thesis
    using h dispatch_position_string [where st = sample_registry and i = "''a''"
        and m = sample_media and e = quiet_env, OF h]
    by simp
qed

text \<open>
  Claim C9: for every registered session and every message type that is none of
  \<open>MEDIA_STATE\<close>, \<open>MEDIA_DURATION\<close>, \<open>MEDIA_POSITION\<close> and \<open>MEDIA_ERROR\<close> (as the
  \<^verbatim>\<open>switch\<close> compares, by \<^verbatim>\<open>===\<close>), the dispatcher only reports the type on the console:
  it invokes no callback and leaves the registry, hence the session's cached duration,
  cached position and other fields, as it was.
\<close>

theorem dispatch_unrecognised_type:
  assumes "st i = Some m"
    and "\<not> strictEqualsNumber msgType MEDIA_STATE"
    and "\<not> strictEqualsNumber msgType MEDIA_DURATION"
    and "\<not> strictEqualsNumber msgType MEDIA_POSITION"
    and "\<not> strictEqualsNumber msgType MEDIA_ERROR"
  shows "browser_onStatus e st i msgType v =
           (st,
            if console_error e
            then [ConsoleError ''Unhandled NSmedia.onStatus :: '' msgType]
            else [],
            Return ()) \<and>
         bridge_onStatus e st i msgType v =
           (st,
            if console_error e
            then [ConsoleError ''Unhandled NSmedia.onStatus :: '' msgType]
            else [],
            Return ())"
  using assms
  by (simp add: browser_onStatus_def bridge_onStatus_def consoleError_def)

theorem dispatch_unrecognised_type_witness:
  "sample_registry ''a'' = Some sample_media \<and>
   \<not> strictEqualsNumber (JStr ''1'') MEDIA_STATE \<and>
   \<not> strictEqualsNumber (JStr ''1'') MEDIA_DURATION \<and>
   \<not> strictEqualsNumber (JStr ''1'') MEDIA_POSITION \<and>
   \<not> strictEqualsNumber (JStr ''1'') MEDIA_ERROR \<and>
   browser_onStatus quiet_env sample_registry ''a'' (JStr ''1'') (JNum MEDIA_STOPPED) =
     (sample_registry, [ConsoleError ''Unhandled NSmedia.onStatus :: '' (JStr ''1'')],
      Return ()) \<and>
   bridge_onStatus quiet_env sample_registry ''a'' (JStr ''1'') (JNum MEDIA_STOPPED) =
     (sample_registry, [ConsoleError ''Unhandled NSmedia.onStatus :: '' (JStr ''1'')],
      Return ())"
proof -
  have h: "sample_registry ''a'' = Some sample_media"
    by (simp add: sample_registry_def)
  have n: "\<not> strictEqualsNumber (JStr ''1'') k" for k
    by simp
  have c: "console_error quiet_env"
    by (simp add: quiet_env_def)
  show ?thesis
    using h n c
      dispatch_unrecognised_type [where st = sample_registry and i = "''a''"
        and m = sample_media and e = quiet_env and msgType = "JStr ''1''"
        and v = "JNum MEDIA_STOPPED", OF h n n n n]
    by simp
qed

text \<open>
  Claim C10: for every registered session, dispatching \<open>(id, MEDIA_DURATION, v)\<close> stores
  \<open>v\<close> as the cached duration without coercion: for the string \<^verbatim>\<open>"42"\<close>, \<open>getDuration\<close>
  then returns that string and not the number 42, whereas the \<open>MEDIA_POSITION\<close> branch
  stores the number 42 for the same string.
\<close>

theorem dispatch_duration_uncoerced:
  assumes "st i = Some m"
  shows "browser_onStatus e st i (JNum MEDIA_DURATION) v =
           (st(i \<mapsto> m\<lparr>priv_duration := v\<rparr>), [], Return ()) \<and>
         bridge_onStatus e st i (JNum MEDIA_DURATION) v =
           (st(i \<mapsto> m\<lparr>priv_duration := v\<rparr>), [], Return ()) \<and>
         outcome_of (getDuration (fst (browser_onStatus e st i (JNum MEDIA_DURATION) v)) i) =
           Return v \<and>
         outcome_of (getDuration (fst (bridge_onStatus e st i (JNum MEDIA_DURATION) v)) i) =
           Return v \<and>
         outcome_of (getDuration
             (fst (browser_onStatus e st i (JNum MEDIA_DURATION) (JStr ''42''))) i) =
           Return (JStr ''42'') \<and>
         outcome_of (getDuration
             (fst (bridge_onStatus e st i (JNum MEDIA_DURATION) (JStr ''42''))) i) =
           Return (JStr ''42'') \<and>
         JStr ''42'' \<noteq> JNum (Finite 42) \<and>
         browser_onStatus e st i (JNum MEDIA_POSITION) (JStr ''42'') =
           (st(i \<mapsto> m\<lparr>priv_position := JNum (Finite 42)\<rparr>), [], Return ()) \<and>
         bridge_onStatus e st i (JNum MEDIA_POSITION) (JStr ''42'') =
           (st(i \<mapsto> m\<lparr>priv_position := JNum (Finite 42)\<rparr>), [], Return ())"
  using assms
  by (simp add: browser_onStatus_def bridge_onStatus_def MEDIA_defs StringToNumber_42
        getDuration_def)

theorem dispatch_duration_uncoerced_witness:
  "sample_registry ''a'' = Some sample_media \<and>
   outcome_of (getDuration
       (fst (browser_onStatus quiet_env sample_registry ''a'' (JNum MEDIA_DURATION)
          (JStr ''42''))) ''a'') = Return (JStr ''42'') \<and>
   outcome_of (getDuration
       (fst (bridge_onStatus quiet_env sample_registry ''a'' (JNum MEDIA_DURATION)
          (JStr ''42''))) ''a'') = Return (JStr ''42'') \<and>
   browser_onStatus quiet_env sample_registry ''a'' (JNum MEDIA_POSITION) (JStr ''42'') =
     (sample_registry(''a'' \<mapsto> sample_media\<lparr>priv_position := JNum (Finite 42)\<rparr>), [],
      Return ())"
proof -
  have h: "sample_registry ''a'' = Some sample_media"
    by (simp add: sample_registry_def)
  show ?thesis
    using h dispatch_duration_uncoerced [where st = sample_registry and i = "''a''"
        and m = sample_media and e = quiet_env and v = "JStr ''42''", OF h]
    by blast
qed

text \<open>The cached duration of a session changes only by a duration message for it.\<close>

lemma browser_onStatus_keeps_duration:
  assumes "st u = Some m" and "i \<noteq> u \<or> \<not> strictEqualsNumber t MEDIA_DURATION"
  shows "\<exists>m'. fst (browser_onStatus e st i t v) u = Some m' \<and> priv_duration m' = priv_duration m"
  using assms
  by (auto simp: browser_onStatus_def callIfSet_eq consoleError_def completion_def
           split: option.split)

lemma bridge_onStatus_keeps_duration:
  assumes "st u = Some m" and "i \<noteq> u \<or> \<not> strictEqualsNumber t MEDIA_DURATION"
  shows "\<exists>m'. fst (bridge_onStatus e st i t v) u = Some m' \<and> priv_duration m' = priv_duration m"
  using assms
  by (auto simp: bridge_onStatus_def callIfSet_eq consoleError_def completion_def
           split: option.split)

lemma browser_dispatchAll_keeps_duration:
  "st u = Some m \<Longrightarrow> no_duration_for u ms \<Longrightarrow>
   \<exists>m'. browser_dispatchAll e st ms u = Some m' \<and> priv_duration m' = priv_duration m"
proof (induction ms arbitrary: st m)
  case Nil
  then show ?case by simp
next
  case (Cons msg ms)
  obtain i t v where msg: "msg = (i, t, v)" by (cases msg)
  from Cons.prems have here: "i \<noteq> u \<or> \<not> strictEqualsNumber t MEDIA_DURATION"
    and rest: "no_duration_for u ms"
    by (simp_all add: no_duration_for_def msg)
  have "\<exists>m'. fst (browser_onStatus e st i t v) u = Some m' \<and> priv_duration m' = priv_duration m"
    using Cons.prems(1) here by (rule browser_onStatus_keeps_duration)
  then obtain m' where m': "fst (browser_onStatus e st i t v) u = Some m'"
    "priv_duration m' = priv_duration m" by blast
  have "\<exists>m''. browser_dispatchAll e (fst (browser_onStatus e st i t v)) ms u = Some m'' \<and>
          priv_duration m'' = priv_duration m'"
    using m'(1) rest by (rule Cons.IH)
  with m'(2) show ?case by (simp add: msg)
qed

lemma bridge_dispatchAll_keeps_duration:
  "st u = Some m \<Longrightarrow> no_duration_for u ms \<Longrightarrow>
   \<exists>m'. bridge_dispatchAll e st ms u = Some m' \<and> priv_duration m' = priv_duration m"
proof (induction ms arbitrary: st m)
  case Nil
  then show ?case by simp
next
  case (Cons msg ms)
  obtain i t v where msg: "msg = (i, t, v)" by (cases msg)
  from Cons.prems have here: "i \<noteq> u \<or> \<not> strictEqualsNumber t MEDIA_DURATION"
    and rest: "no_duration_for u ms"
    by (simp_all add: no_duration_for_def msg)
  have "\<exists>m'. fst (bridge_onStatus e st i t v) u = Some m' \<and> priv_duration m' = priv_duration m"
    using Cons.prems(1) here by (rule bridge_onStatus_keeps_duration)
  then obtain m' where m': "fst (bridge_onStatus e st i t v) u = Some m'"
    "priv_duration m' = priv_duration m" by blast
  have "\<exists>m''. bridge_dispatchAll e (fst (bridge_onStatus e st i t v)) ms u = Some m'' \<and>
          priv_duration m'' = priv_duration m'"
    using m'(1) rest by (rule Cons.IH)
  with m'(2) show ?case by (simp add: msg)
qed

lemma browser_NSmedia_registers:
  assumes "checkArgs e ''SFFF'' s = None"
  shows "\<exists>m. fst (browser_NSmedia e st u s sc ec stc) u = Some m \<and>
             priv_duration m = JNum (Finite (- 1)) \<and> media_id m = u"
  using assms
  by (auto simp: browser_NSmedia_def browser_onStatus_def callIfSet_eq completion_def
        createNode_def primitive_def setNode_def MEDIA_defs
        split: option.split prod.split)

lemma bridge_NSmedia_registers:
  assumes "checkArgs e ''sFFF'' s = None"
  shows "\<exists>m. fst (bridge_NSmedia e st u s sc ec stc) u = Some m \<and>
             priv_duration m = JNum (Finite (- 1)) \<and> media_id m = u"
  using assms
  by (simp add: bridge_NSmedia_def)

lemma getDuration_outcome:
  "st u = Some m \<Longrightarrow> outcome_of (getDuration st u) = Return (priv_duration m)"
  by (simp add: getDuration_def outcome_of_def)

text \<open>
  Claim C6: for every registered session, after \<open>(id, MEDIA_DURATION, 42)\<close> has been
  dispatched, \<open>getDuration\<close> on that session returns 42; and a session returns \<open>-1\<close>, the
  value its constructor stores, as long as no duration message for it has been
  dispatched, whatever else has been.
\<close>

theorem duration_dispatch_and_initial_value:
  "(st i = Some m \<longrightarrow>
      outcome_of (getDuration
          (fst (browser_onStatus e st i (JNum MEDIA_DURATION) (JNum (Finite 42)))) i) =
        Return (JNum (Finite 42)) \<and>
      outcome_of (getDuration
          (fst (bridge_onStatus e st i (JNum MEDIA_DURATION) (JNum (Finite 42)))) i) =
        Return (JNum (Finite 42))) \<and>
   (checkArgs e ''SFFF'' s = None \<and> no_duration_for u ms \<longrightarrow>
      outcome_of (getDuration
          (browser_dispatchAll e (fst (browser_NSmedia e st u s sc ec stc)) ms) u) =
        Return (JNum (Finite (- 1)))) \<and>
   (checkArgs e ''sFFF'' s = None \<and> no_duration_for u ms \<longrightarrow>
      outcome_of (getDuration
          (bridge_dispatchAll e (fst (bridge_NSmedia e st u s sc ec stc)) ms) u) =
        Return (JNum (Finite (- 1))))"
proof (intro conjI impI)
  assume "st i = Some m"
  then show "outcome_of (getDuration
          (fst (browser_onStatus e st i (JNum MEDIA_DURATION) (JNum (Finite 42)))) i) =
        Return (JNum (Finite 42))"
    by (simp add: browser_onStatus_def MEDIA_defs getDuration_def outcome_of_def)
next
  assume "st i = Some m"
  then show "outcome_of (getDuration
          (fst (bridge_onStatus e st i (JNum MEDIA_DURATION) (JNum (Finite 42)))) i) =
        Return (JNum (Finite 42))"
    by (simp add: bridge_onStatus_def MEDIA_defs getDuration_def outcome_of_def)
next
  assume a: "checkArgs e ''SFFF'' s = None \<and> no_duration_for u ms"
  then have c: "checkArgs e ''SFFF'' s = None" and nd: "no_duration_for u ms" by simp_all
  have "\<exists>m. fst (browser_NSmedia e st u s sc ec stc) u = Some m \<and>
          priv_duration m = JNum (Finite (- 1)) \<and> media_id m = u"
    using c by (rule browser_NSmedia_registers)
  then obtain m0 where m0: "fst (browser_NSmedia e st u s sc ec stc) u = Some m0"
    "priv_duration m0 = JNum (Finite (- 1))" by blast
  have "\<exists>m'. browser_dispatchAll e (fst (browser_NSmedia e st u s sc ec stc)) ms u = Some m' \<and>
          priv_duration m' = priv_duration m0"
    using m0(1) nd by (rule browser_dispatchAll_keeps_duration)
  with m0(2) obtain m1 where "browser_dispatchAll e (fst (browser_NSmedia e st u s sc ec stc)) ms u = Some m1"
    "priv_duration m1 = JNum (Finite (- 1))" by auto
  then show "outcome_of (getDuration
          (browser_dispatchAll e (fst (browser_NSmedia e st u s sc ec stc)) ms) u) =
        Return (JNum (Finite (- 1)))"
    by (simp add: getDuration_outcome)
next
  assume a: "checkArgs e ''sFFF'' s = None \<and> no_duration_for u ms"
  then have c: "checkArgs e ''sFFF'' s = None" and nd: "no_duration_for u ms" by simp_all
  have "\<exists>m. fst (bridge_NSmedia e st u s sc ec stc) u = Some m \<and>
          priv_duration m = JNum (Finite (- 1)) \<and> media_id m = u"
    using c by (rule bridge_NSmedia_registers)
  then obtain m0 where m0: "fst (bridge_NSmedia e st u s sc ec stc) u = Some m0"
    "priv_duration m0 = JNum (Finite (- 1))" by blast
  have "\<exists>m'. bridge_dispatchAll e (fst (bridge_NSmedia e st u s sc ec stc)) ms u = Some m' \<and>
          priv_duration m' = priv_duration m0"
    using m0(1) nd by (rule bridge_dispatchAll_keeps_duration)
  with m0(2) obtain m1 where "bridge_dispatchAll e (fst (bridge_NSmedia e st u s sc ec stc)) ms u = Some m1"
    "priv_duration m1 = JNum (Finite (- 1))" by auto
  then show "outcome_of (getDuration
          (bridge_dispatchAll e (fst (bridge_NSmedia e st u s sc ec stc)) ms) u) =
        Return (JNum (Finite (- 1)))"
    by (simp add: getDuration_outcome)
qed

theorem duration_dispatch_and_initial_value_witness:
  "sample_registry ''a'' = Some sample_media \<and>
   checkArgs quiet_env ''SFFF'' (JStr ''song.mp3'') = None \<and>
   checkArgs quiet_env ''sFFF'' (JStr ''song.mp3'') = None \<and>
   no_duration_for ''c''
     [(''c'', JNum MEDIA_STATE, JNum MEDIA_RUNNING), (''a'', JNum MEDIA_DURATION, JNum (Finite 7)),
      (''c'', JNum MEDIA_POSITION, JStr ''12.5'')] \<and>
   outcome_of (getDuration
       (fst (browser_onStatus quiet_env sample_registry ''a'' (JNum MEDIA_DURATION)
          (JNum (Finite 42)))) ''a'') = Return (JNum (Finite 42)) \<and>
   outcome_of (getDuration
       (fst (bridge_onStatus quiet_env sample_registry ''a'' (JNum MEDIA_DURATION)
          (JNum (Finite 42)))) ''a'') = Return (JNum (Finite 42)) \<and>
   outcome_of (getDuration
       (browser_dispatchAll quiet_env
          (fst (browser_NSmedia quiet_env sample_registry ''c'' (JStr ''song.mp3'')
                  None None None))
          [(''c'', JNum MEDIA_STATE, JNum MEDIA_RUNNING),
           (''a'', JNum MEDIA_DURATION, JNum (Finite 7)),
           (''c'', JNum MEDIA_POSITION, JStr ''12.5'')])
       ''c'') = Return (JNum (Finite (- 1))) \<and>
   outcome_of (getDuration
       (bridge_dispatchAll quiet_env
          (fst (bridge_NSmedia quiet_env sample_registry ''c'' (JStr ''song.mp3'')
                  None None None))
          [(''c'', JNum MEDIA_STATE, JNum MEDIA_RUNNING),
           (''a'', JNum MEDIA_DURATION, JNum (Finite 7)),
           (''c'', JNum MEDIA_POSITION, JStr ''12.5'')])
       ''c'') = Return (JNum (Finite (- 1)))"
proof -
  have h1: "sample_registry ''a'' = Some sample_media"
    by (simp add: sample_registry_def)
  have h2: "checkArgs quiet_env spec (JStr ''song.mp3'') = None" for spec
    by (simp add: quiet_env_def)
  have h3: "no_duration_for ''c''
     [(''c'', JNum MEDIA_STATE, JNum MEDIA_RUNNING), (''a'', JNum MEDIA_DURATION, JNum (Finite 7)),
      (''c'', JNum MEDIA_POSITION, JStr ''12.5'')]"
    by (simp add: no_duration_for_def MEDIA_defs)
  show ?thesis
    using h1 h2 h3
      duration_dispatch_and_initial_value [where st = sample_registry and i = "''a''"
        and m = sample_media and e = quiet_env and u = "''c''" and s = "JStr ''song.mp3''"
        and sc = None and ec = None and stc = None
        and ms = "[(''c'', JNum MEDIA_STATE, JNum MEDIA_RUNNING),
                   (''a'', JNum MEDIA_DURATION, JNum (Finite 7)),
                   (''c'', JNum MEDIA_POSITION, JStr ''12.5'')]"]
    by simp
qed

section \<open>The browser adapter\<close>

text \<open>
  Claim C7: in the browser variant, a native error event whose error code is the
  "source not supported" code reaches the error callback, through the \<open>MEDIA_ERROR\<close>
  status, as a fresh object that carries the aborted code, which is not the unsupported
  code as long as the two constants of \<^verbatim>\<open>NSmediaError\<close> differ; an event with any other
  code has its error object passed on as it is.
\<close>

theorem onerror_remaps_unsupported_source:
  assumes "st (handlers_for n) = Some m"
    and "getProperty err ''code'' = Return c"
  shows "(strictEqualsNumber c (MEDIA_ERR_SRC_NOT_SUPPORTED e) \<longrightarrow>
            onerror e st n err =
              (st,
               invocations (errorCallback m) [JObj [(''code'', JNum (MEDIA_ERR_ABORTED e))]],
               completion e (errorCallback m) [JObj [(''code'', JNum (MEDIA_ERR_ABORTED e))]]) \<and>
            getProperty (JObj [(''code'', JNum (MEDIA_ERR_ABORTED e))]) ''code'' =
              Return (JNum (MEDIA_ERR_ABORTED e)) \<and>
            (MEDIA_ERR_ABORTED e \<noteq> MEDIA_ERR_SRC_NOT_SUPPORTED e \<longrightarrow>
               \<not> strictEqualsNumber (JNum (MEDIA_ERR_ABORTED e))
                   (MEDIA_ERR_SRC_NOT_SUPPORTED e))) \<and>
         (\<not> strictEqualsNumber c (MEDIA_ERR_SRC_NOT_SUPPORTED e) \<longrightarrow>
            onerror e st n err =
              (st, invocations (errorCallback m) [err], completion e (errorCallback m) [err]))"
proof -
  have "numEq a b \<Longrightarrow> a = b" for a b
    by (cases a; cases b) simp_all
  then have ne: "a \<noteq> b \<Longrightarrow> \<not> strictEqualsNumber (JNum a) b" for a b
    by auto
  show ?thesis
    using assms ne [of "MEDIA_ERR_ABORTED e" "MEDIA_ERR_SRC_NOT_SUPPORTED e"]
    by (simp add: onerror_def onStatus_ERROR)
qed

theorem onerror_remaps_unsupported_source_witness:
  "sample_registry (handlers_for \<lparr>handlers_for = ''a'', node_src = None\<rparr>) = Some sample_media \<and>
   getProperty (JObj [(''code'', JNum (Finite 4)), (''message'', JStr '''')]) ''code'' =
     Return (JNum (Finite 4)) \<and>
   strictEqualsNumber (JNum (Finite 4)) (MEDIA_ERR_SRC_NOT_SUPPORTED quiet_env) \<and>
   MEDIA_ERR_ABORTED quiet_env \<noteq> MEDIA_ERR_SRC_NOT_SUPPORTED quiet_env \<and>
   onerror quiet_env sample_registry \<lparr>handlers_for = ''a'', node_src = None\<rparr>
       (JObj [(''code'', JNum (Finite 4)), (''message'', JStr '''')]) =
     (sample_registry, [Call 2 [JObj [(''code'', JNum (Finite 1))]]], Return ()) \<and>
   \<not> strictEqualsNumber (JNum (MEDIA_ERR_ABORTED quiet_env))
       (MEDIA_ERR_SRC_NOT_SUPPORTED quiet_env)"
proof -
  have h1: "sample_registry (handlers_for \<lparr>handlers_for = ''a'', node_src = None\<rparr>) =
              Some sample_media"
    by (simp add: sample_registry_def)
  have h2: "getProperty (JObj [(''code'', JNum (Finite 4)), (''message'', JStr '''')]) ''code'' =
              Return (JNum (Finite 4))"
    by simp
  have k: "MEDIA_ERR_SRC_NOT_SUPPORTED quiet_env = Finite 4" "MEDIA_ERR_ABORTED quiet_env = Finite 1"
    by (simp_all add: quiet_env_def)
  have c: "completion quiet_env (errorCallback sample_media) args = Return ()" for args
    by (simp add: completion_def sample_media_def quiet_env_def)
  have i: "invocations (errorCallback sample_media) args = [Call 2 args]" for args
    by (simp add: invocations_def sample_media_def)
  show ?thesis
    using h1 h2 k c i
      onerror_remaps_unsupported_source [where st = sample_registry
        and n = "\<lparr>handlers_for = ''a'', node_src = None\<rparr>" and m = sample_media
        and err = "JObj [(''code'', JNum (Finite 4)), (''message'', JStr '''')]"
        and c = "JNum (Finite 4)" and e = quiet_env, OF h1 h2]
    by simp
qed

text \<open>
  Claim C8: in the browser variant, \<open>release\<close> removes the node of the session and
  leaves the registry entry with every other field; a following \<open>play\<close> constructs a new
  node, attaches it to the session and plays it. The primitive is taken to work: its
  constructor and its \<^verbatim>\<open>play()\<close> do not throw.
\<close>

theorem release_then_play_recreates_node:
  assumes "st this = Some m"
    and "prim_throws e NewAudio = None"
    and "prim_throws e NodePlay = None"
  shows "release e st this = (st(this \<mapsto> m\<lparr>node := None\<rparr>), [], Return ()) \<and>
         play e (fst (release e st this)) this =
           (st(this \<mapsto>
               m\<lparr>node := Some \<lparr>handlers_for = media_id m,
                                node_src = (if truthy (src m) then Some (src m) else None)\<rparr>\<rparr>),
            [Prim NewAudio, Prim NodePlay],
            Return ())"
  using assms
  by (simp add: release_def play_def createNode_def primitive_def setNode_def onNode_def)

theorem release_then_play_recreates_node_witness:
  "sample_registry ''a'' = Some sample_media \<and>
   prim_throws quiet_env NewAudio = None \<and>
   prim_throws quiet_env NodePlay = None \<and>
   release quiet_env sample_registry ''a'' =
     (sample_registry(''a'' \<mapsto> sample_media\<lparr>node := None\<rparr>), [], Return ()) \<and>
   play quiet_env (fst (release quiet_env sample_registry ''a'')) ''a'' =
     (sample_registry(''a'' \<mapsto> sample_media), [Prim NewAudio, Prim NodePlay], Return ())"
proof -
  have h1: "sample_registry ''a'' = Some sample_media"
    by (simp add: sample_registry_def)
  have h2: "prim_throws quiet_env op = None" for op
    by (simp add: quiet_env_def)
  have n: "sample_media\<lparr>node := Some \<lparr>handlers_for = media_id sample_media,
              node_src = (if truthy (src sample_media) then Some (src sample_media) else None)\<rparr>\<rparr> =
           sample_media"
    by (simp add: sample_media_def)
  note t = release_then_play_recreates_node [where st = sample_registry and this = "''a''"
        and m = sample_media and e = quiet_env, OF h1 h2 h2]
  show ?thesis
    using h1 h2 [of NewAudio] h2 [of NodePlay] t [THEN conjunct1] t [THEN conjunct2] n
    by simp
qed

subsection \<open>Faults of the primitive\<close>

text \<open>A \<^verbatim>\<open>try\<close> whose handler returns, in a call that leaves the registry alone.\<close>

lemma tryCatch_handled:
  assumes "fst r = st" and "\<And>err. fst (h err st) = st \<and> outcome_of (h err st) = Return ()"
  shows "fst (tryCatch r h) = st \<and> outcome_of (tryCatch r h) = Return ()"
proof (cases r)
  case (fields st' tr c)
  with assms(1) have st': "st' = st" by simp
  show ?thesis
  proof (cases c)
    case (Return x)
    with fields st' show ?thesis by simp
  next
    case (Throw err)
    obtain tr2 where "h err st = (st, tr2, Return ())"
      using assms(2) [of err] by (cases "h err st") (simp add: outcome_of_def)
    with fields st' Throw show ?thesis by simp
  qed
qed

lemma andThen_fst:
  assumes "fst r = st" and "\<And>x. fst (k x st) = st"
  shows "fst (andThen r k) = st"
proof (cases r)
  case (fields st' tr c)
  with assms(1) have st': "st' = st" by simp
  show ?thesis
  proof (cases c)
    case (Return x)
    with fields st' assms(2) [of x] show ?thesis
      by (cases "k x st") simp
  next
    case (Throw err)
    with fields st' show ?thesis by simp
  qed
qed

lemma onNode_fst: "fst (onNode e st this op) = st"
  by (simp add: onNode_def primitive_def split: option.split)

lemma ERROR_handler:
  assumes "st this = Some m" and "\<forall>x. returns e (errorCallback m) [x]"
  shows "fst (browser_onStatus e st this (JNum MEDIA_ERROR) err) = st \<and>
         outcome_of (browser_onStatus e st this (JNum MEDIA_ERROR) err) = Return ()"
  using assms by (simp add: onStatus_ERROR completion_returns)

lemma pause_handled:
  assumes "st this = Some m" and "media_id m = this" and "\<forall>x. returns e (errorCallback m) [x]"
  shows "fst (pause e st this) = st \<and> outcome_of (pause e st this) = Return ()"
proof -
  have body: "fst (andThen (onNode e st this NodePause)
               (\<lambda>_ st1. browser_onStatus e st1 this (JNum MEDIA_STATE) (JNum MEDIA_PAUSED))) = st"
    using assms(1) by (intro andThen_fst onNode_fst) (simp add: onStatus_STATE_fst)
  have "fst (tryCatch (andThen (onNode e st this NodePause)
               (\<lambda>_ st1. browser_onStatus e st1 this (JNum MEDIA_STATE) (JNum MEDIA_PAUSED)))
            (\<lambda>err st1. browser_onStatus e st1 this (JNum MEDIA_ERROR) err)) = st \<and>
        outcome_of (tryCatch (andThen (onNode e st this NodePause)
               (\<lambda>_ st1. browser_onStatus e st1 this (JNum MEDIA_STATE) (JNum MEDIA_PAUSED)))
            (\<lambda>err st1. browser_onStatus e st1 this (JNum MEDIA_ERROR) err)) = Return ()"
    using body ERROR_handler [of st this m e, OF assms(1,3)] by (rule tryCatch_handled)
  then show ?thesis
    using assms(1,2) by (simp add: pause_def)
qed

lemma seekTo_handled:
  assumes "st this = Some m" and "media_id m = this" and "\<forall>x. returns e (errorCallback m) [x]"
  shows "fst (seekTo e st this ms) = st \<and> outcome_of (seekTo e st this ms) = Return ()"
proof -
  have "fst (tryCatch (onNode e st this (SetCurrentTime (divideBy1000 ms)))
            (\<lambda>err st1. browser_onStatus e st1 this (JNum MEDIA_ERROR) err)) = st \<and>
        outcome_of (tryCatch (onNode e st this (SetCurrentTime (divideBy1000 ms)))
            (\<lambda>err st1. browser_onStatus e st1 this (JNum MEDIA_ERROR) err)) = Return ()"
    using onNode_fst ERROR_handler [of st this m e, OF assms(1,3)] by (rule tryCatch_handled)
  then show ?thesis
    using assms(1,2) by (simp add: seekTo_def)
qed

lemma stop_handled:
  assumes "st this = Some m" and "media_id m = this" and "\<forall>x. returns e (errorCallback m) [x]"
  shows "fst (stop e st this) = st \<and> outcome_of (stop e st this) = Return ()"
proof -
  have p: "fst (pause e st this) = st"
    using pause_handled [of st this m e, OF assms] by simp
  have s: "fst (seekTo e st this ms) = st" for ms
    using seekTo_handled [of st this m e, OF assms] by simp
  have body: "fst (andThen (pause e st this)
               (\<lambda>_ st1.
                  andThen (seekTo e st1 this (JNum (Finite 0)))
                    (\<lambda>_ st2.
                       browser_onStatus e st2 this (JNum MEDIA_STATE)
                         (JNum MEDIA_STOPPED)))) = st"
    using assms(1) by (intro andThen_fst p s) (simp add: onStatus_STATE_fst)
  have "fst (tryCatch (andThen (pause e st this)
               (\<lambda>_ st1.
                  andThen (seekTo e st1 this (JNum (Finite 0)))
                    (\<lambda>_ st2.
                       browser_onStatus e st2 this (JNum MEDIA_STATE)
                         (JNum MEDIA_STOPPED))))
            (\<lambda>err st1. browser_onStatus e st1 this (JNum MEDIA_ERROR) err)) = st \<and>
        outcome_of (tryCatch (andThen (pause e st this)
               (\<lambda>_ st1.
                  andThen (seekTo e st1 this (JNum (Finite 0)))
                    (\<lambda>_ st2.
                       browser_onStatus e st2 this (JNum MEDIA_STATE)
                         (JNum MEDIA_STOPPED))))
            (\<lambda>err st1. browser_onStatus e st1 this (JNum MEDIA_ERROR) err)) = Return ()"
    using body ERROR_handler [of st this m e, OF assms(1,3)] by (rule tryCatch_handled)
  then show ?thesis
    using assms(1,2) by (simp add: stop_def)
qed

lemma pause_fault:
  assumes "st this = Some m" and "media_id m = this" and "\<forall>x. returns e (errorCallback m) [x]"
    and "node m \<noteq> None" and "prim_throws e NodePause = Some x"
  shows "pause e st this = (st, Prim NodePause # invocations (errorCallback m) [x], Return ())"
  using assms
  by (auto simp: pause_def onNode_def primitive_def onStatus_ERROR completion_returns)

lemma seekTo_fault:
  assumes "st this = Some m" and "media_id m = this" and "\<forall>x. returns e (errorCallback m) [x]"
    and "node m \<noteq> None" and "prim_throws e (SetCurrentTime (divideBy1000 ms)) = Some x"
  shows "seekTo e st this ms =
           (st, Prim (SetCurrentTime (divideBy1000 ms)) # invocations (errorCallback m) [x],
            Return ())"
  using assms
  by (auto simp: seekTo_def onNode_def primitive_def onStatus_ERROR completion_returns)

lemma stop_fault:
  assumes "st this = Some m" and "media_id m = this" and "\<forall>x. returns e (errorCallback m) [x]"
    and "node m \<noteq> None" and "prim_throws e NodePause = Some x"
  shows "\<exists>tr. events_of (stop e st this) =
           Prim NodePause # invocations (errorCallback m) [x] @ tr"
proof -
  obtain st1 tr1 c1 where r: "andThen (seekTo e st this (JNum (Finite 0)))
                    (\<lambda>_ st2.
                       browser_onStatus e st2 (media_id m) (JNum MEDIA_STATE)
                         (JNum MEDIA_STOPPED)) = (st1, tr1, c1)"
    by (cases "andThen (seekTo e st this (JNum (Finite 0)))
                    (\<lambda>_ st2.
                       browser_onStatus e st2 (media_id m) (JNum MEDIA_STATE)
                         (JNum MEDIA_STOPPED))")
  show ?thesis
    using assms(1) r
    by (cases c1)
       (auto simp: stop_def pause_fault [of st this m e x, OF assms] tryCatch_def
             split: prod.split)
qed

lemma stop_seek_fault:
  assumes "st this = Some m" and "media_id m = this" and "\<forall>x. returns e (errorCallback m) [x]"
    and "node m \<noteq> None"
    and "prim_throws e (SetCurrentTime (divideBy1000 (JNum (Finite 0)))) = Some x"
  shows "set (invocations (errorCallback m) [x]) \<subseteq> set (events_of (stop e st this))"
proof -
  obtain trp where p: "pause e st this = (st, trp, Return ())"
    using pause_handled [of st this m e, OF assms(1,2,3)]
    by (cases "pause e st this") (simp add: outcome_of_def)
  have s: "seekTo e st this (JNum (Finite 0)) =
             (st, Prim (SetCurrentTime (divideBy1000 (JNum (Finite 0)))) #
                  invocations (errorCallback m) [x], Return ())"
    using assms by (rule seekTo_fault)
  obtain st3 tr3 c3 where d: "browser_onStatus e st this (JNum MEDIA_STATE) (JNum MEDIA_STOPPED) =
      (st3, tr3, c3)"
    by (cases "browser_onStatus e st this (JNum MEDIA_STATE) (JNum MEDIA_STOPPED)")
  show ?thesis
    using assms(1,2) p s d
    by (cases c3) (auto simp: stop_def split: prod.split)
qed

lemma getCurrentPosition_fault:
  assumes "st this = Some m"
    and "node m \<noteq> None" and "prim_throws e GetCurrentTime = Some x"
  shows "getCurrentPosition e st this success fail =
           (st, Prim GetCurrentTime # invocations fail [x],
            case fail of None \<Rightarrow> Throw TypeError | Some f \<Rightarrow> completion e fail [x])"
  using assms
  by (auto simp: getCurrentPosition_def onNode_def primitive_def callFunction_def call_def
        invocations_def completion_def split: option.split)

text \<open>
  Claim C4: in the browser variant, whenever the primitive throws in \<open>play\<close>, \<open>pause\<close>,
  \<open>stop\<close>, \<open>seekTo\<close>, \<open>setVolume\<close>, \<open>getCurrentPosition\<close> or \<open>release\<close>, the fault becomes
  an \<open>MEDIA_ERROR\<close> status sent through the dispatcher and does not reach the caller.

  As stated this fails: \<open>getCurrentPosition\<close> hands the fault to its \<open>fail\<close> argument and
  not to the dispatcher, and \<open>setVolume\<close> and \<^verbatim>\<open>this.node.play()\<close> in \<open>play\<close> stand outside
  any \<^verbatim>\<open>try\<close>. What holds, for a session whose error callback returns: \<open>pause\<close>,
  \<open>seekTo\<close> and \<open>stop\<close> always return, and a fault of the primitive in them is passed to
  the error callback through the dispatcher; \<open>release\<close> does not touch the primitive and
  returns; \<open>getCurrentPosition\<close> passes a fault of the primitive to \<open>fail\<close>.
\<close>

theorem primitive_faults_pause_seekTo_stop:
  assumes "st this = Some m"
    and "media_id m = this"
    and "\<forall>x. returns e (errorCallback m) [x]"
  shows "outcome_of (pause e st this) = Return () \<and>
         outcome_of (seekTo e st this ms) = Return () \<and>
         outcome_of (stop e st this) = Return () \<and>
         release e st this = (st(this \<mapsto> m\<lparr>node := None\<rparr>), [], Return ()) \<and>
         (node m \<noteq> None \<and> prim_throws e NodePause = Some x \<longrightarrow>
            pause e st this =
              (st, Prim NodePause # invocations (errorCallback m) [x], Return ()) \<and>
            (\<exists>tr. events_of (stop e st this) =
                    Prim NodePause # invocations (errorCallback m) [x] @ tr)) \<and>
         (node m \<noteq> None \<and> prim_throws e (SetCurrentTime (divideBy1000 ms)) = Some x \<longrightarrow>
            seekTo e st this ms =
              (st, Prim (SetCurrentTime (divideBy1000 ms)) # invocations (errorCallback m) [x],
               Return ())) \<and>
         (node m \<noteq> None \<and>
          prim_throws e (SetCurrentTime (divideBy1000 (JNum (Finite 0)))) = Some x \<longrightarrow>
            set (invocations (errorCallback m) [x]) \<subseteq> set (events_of (stop e st this))) \<and>
         (node m \<noteq> None \<and> prim_throws e GetCurrentTime = Some x \<longrightarrow>
            getCurrentPosition e st this success fail =
              (st, Prim GetCurrentTime # invocations fail [x],
               case fail of None \<Rightarrow> Throw TypeError | Some f \<Rightarrow> completion e fail [x]))"
proof (intro conjI impI)
  show "outcome_of (pause e st this) = Return ()"
    using pause_handled [of st this m e, OF assms] by simp
  show "outcome_of (seekTo e st this ms) = Return ()"
    using seekTo_handled [of st this m e, OF assms] by simp
  show "outcome_of (stop e st this) = Return ()"
    using stop_handled [of st this m e, OF assms] by simp
  show "release e st this = (st(this \<mapsto> m\<lparr>node := None\<rparr>), [], Return ())"
    using assms(1) by (simp add: release_def)
next
  assume "node m \<noteq> None \<and> prim_throws e NodePause = Some x"
  then have n: "node m \<noteq> None" and f: "prim_throws e NodePause = Some x" by simp_all
  show "pause e st this =
          (st, Prim NodePause # invocations (errorCallback m) [x], Return ())"
    using assms n f by (rule pause_fault)
  show "\<exists>tr. events_of (stop e st this) =
               Prim NodePause # invocations (errorCallback m) [x] @ tr"
    using assms n f by (rule stop_fault)
next
  assume "node m \<noteq> None \<and> prim_throws e (SetCurrentTime (divideBy1000 ms)) = Some x"
  then have n: "node m \<noteq> None"
    and f: "prim_throws e (SetCurrentTime (divideBy1000 ms)) = Some x" by simp_all
  show "seekTo e st this ms =
          (st, Prim (SetCurrentTime (divideBy1000 ms)) # invocations (errorCallback m) [x],
           Return ())"
    using assms n f by (rule seekTo_fault)
next
  assume "node m \<noteq> None \<and>
          prim_throws e (SetCurrentTime (divideBy1000 (JNum (Finite 0)))) = Some x"
  then have n: "node m \<noteq> None"
    and f: "prim_throws e (SetCurrentTime (divideBy1000 (JNum (Finite 0)))) = Some x"
    by simp_all
  show "set (invocations (errorCallback m) [x]) \<subseteq> set (events_of (stop e st this))"
    using assms n f by (rule stop_seek_fault)
next
  assume "node m \<noteq> None \<and> prim_throws e GetCurrentTime = Some x"
  then have n: "node m \<noteq> None" and f: "prim_throws e GetCurrentTime = Some x" by simp_all
  show "getCurrentPosition e st this success fail =
          (st, Prim GetCurrentTime # invocations fail [x],
           case fail of None \<Rightarrow> Throw TypeError | Some f \<Rightarrow> completion e fail [x])"
    using assms(1) n f by (rule getCurrentPosition_fault)
qed

theorem primitive_faults_pause_seekTo_stop_witness:
  "sample_registry ''a'' = Some sample_media \<and>
   media_id sample_media = ''a'' \<and>
   (\<forall>x. returns faulty_env (errorCallback sample_media) [x]) \<and>
   node sample_media \<noteq> None \<and>
   prim_throws faulty_env NodePause = Some boom \<and>
   prim_throws faulty_env (SetCurrentTime (divideBy1000 (JNum (Finite 3000)))) = Some boom \<and>
   prim_throws faulty_env GetCurrentTime = Some boom \<and>
   pause faulty_env sample_registry ''a'' =
     (sample_registry, [Prim NodePause, Call 2 [boom]], Return ()) \<and>
   seekTo faulty_env sample_registry ''a'' (JNum (Finite 3000)) =
     (sample_registry, [Prim (SetCurrentTime (JNum (Finite 3))), Call 2 [boom]], Return ()) \<and>
   outcome_of (stop faulty_env sample_registry ''a'') = Return () \<and>
   set [Call 2 [boom]] \<subseteq> set (events_of (stop faulty_env sample_registry ''a'')) \<and>
   release faulty_env sample_registry ''a'' =
     (sample_registry(''a'' \<mapsto> sample_media\<lparr>node := None\<rparr>), [], Return ()) \<and>
   getCurrentPosition faulty_env sample_registry ''a'' (Some 4) (Some 5) =
     (sample_registry, [Prim GetCurrentTime, Call 5 [boom]], Return ())"
proof -
  have h1: "sample_registry ''a'' = Some sample_media"
    by (simp add: sample_registry_def)
  have h2: "media_id sample_media = ''a''"
    by (simp add: sample_media_def)
  have h3: "\<forall>x. returns faulty_env (errorCallback sample_media) [x]"
    by (simp add: returns_def sample_media_def faulty_env_def)
  have h4: "node sample_media \<noteq> None"
    by (simp add: sample_media_def)
  have h5: "prim_throws faulty_env op = Some boom" for op
    by (simp add: faulty_env_def)
  have d: "divideBy1000 (JNum (Finite 3000)) = JNum (Finite 3)"
    by (simp add: divideBy1000_def)
  have c: "completion faulty_env (Some 5) [boom] = Return ()"
    by (simp add: completion_def faulty_env_def)
  have i: "invocations (errorCallback sample_media) [boom] = [Call 2 [boom]]"
    by (simp add: invocations_def sample_media_def)
  show ?thesis
    using h1 h2 h3 h4 h5 d c i
      primitive_faults_pause_seekTo_stop [where st = sample_registry and this = "''a''"
        and m = sample_media and e = faulty_env and x = boom and ms = "JNum (Finite 3000)"
        and success = "Some 4" and fail = "Some 5", OF h1 h2 h3]
    by (simp add: invocations_def)
qed

theorem primitive_faults_not_all_dispatched:
  "getCurrentPosition faulty_env sample_registry ''a'' (Some 4) (Some 5) =
     (sample_registry, [Prim GetCurrentTime, Call 5 [boom]], Return ()) \<and>
   setVolume faulty_env sample_registry ''a'' (JNum (Finite 2)) =
     (sample_registry, [Prim (SetVolume (JNum (Finite 2)))], Throw boom) \<and>
   play faulty_env sample_registry ''a'' =
     (sample_registry, [Prim NodePlay], Throw boom)"
  by (simp add: getCurrentPosition_def setVolume_def play_def onNode_def primitive_def
        callFunction_def call_def sample_defs)

end
